theory Spec2Isabelle
  imports Main
begin

section \<open>The gcov driver of llvm-cov (llvm/tools/llvm-cov/gcov.cpp)\<close>

text \<open>
  The file is an orchestration layer: it derives the names of the notes file (.gcno) and of
  the data file (.gcda) of a source file, loads them, hands them to the coverage graph
  (\<^verbatim>\<open>GCOVFile\<close>) and calls the renderer (\<^verbatim>\<open>gcovOneInput\<close>). Everything it calls
  lives in other files (the path library, the file system, the graph, the renderer), so the
  embedding takes these as the fields of a record, the \<^emph>\<open>world\<close>, and every theorem holds
  for every world. What the code does to the outside (text written to \<^verbatim>\<open>errs()\<close>, files
  opened, collaborator calls) is recorded, in program order, in a trace of events.
\<close>

subsection \<open>Data model\<close>

text \<open>
  \<^verbatim>\<open>std::error_code\<close> as far as the code looks at it: it compares the code with
  \<^verbatim>\<open>errc::no_such_file_or_directory\<close> and prints its message. The first constructor
  stands for the codes equal to that condition, \<open>other_error n\<close> for every other code.
  Both are failures: a successful load is the other side of the \<^verbatim>\<open>ErrorOr\<close>.
\<close>

datatype error_code = no_such_file_or_directory | other_error nat

text \<open>
  \<^verbatim>\<open>GCOV::Options\<close>, built by its constructor call in \<^verbatim>\<open>gcovMain\<close>, positionally:
  AllBlocks, BranchProb, BranchCount, FuncSummary, PreservePaths, UncondBranch,
  Intermediate, LongNames, Demangle, NoOutput, RelativeOnly, UseStdout, HashFilenames,
  SourcePrefix.
\<close>

datatype GCOV_Options =
  Options bool bool bool bool bool bool bool bool bool bool bool bool bool string

text \<open>
  The values of the command-line options after \<^verbatim>\<open>cl::ParseCommandLineOptions\<close> has
  returned (one field for each \<^verbatim>\<open>cl::opt\<close> and for the positional list).
\<close>

record cmdline =
  SourceFiles :: "string list"
  AllBlocks :: bool
  BranchProb :: bool
  BranchCount :: bool
  LongNames :: bool
  FuncSummary :: bool
  Intermediate :: bool
  Demangle :: bool
  NoOutput :: bool
  ObjectDir :: string
  PreservePaths :: bool
  RelativeOnly :: bool
  SourcePrefix :: string
  UseStdout :: bool
  UncondBranch :: bool
  HashFilenames :: bool
  DumpGCOV :: bool
  InputGCNO :: string
  InputGCDA :: string

text \<open>
  The world: the functions of other files that gcov.cpp calls. \<open>'buf\<close> is a loaded
  \<^verbatim>\<open>MemoryBuffer\<close>, \<open>'gf\<close> the state of a \<^verbatim>\<open>GCOVFile\<close>.
  \<^item> \<open>parent_path\<close>, \<open>stem\<close>, \<open>path_append\<close>, \<open>replace_extension\<close>: \<^verbatim>\<open>sys::path\<close>;
    \<open>path_append p c\<close> is the value of \<open>p\<close> after \<^verbatim>\<open>sys::path::append(p, c)\<close>.
  \<^item> \<open>is_directory\<close>: \<^verbatim>\<open>sys::fs::is_directory\<close>.
  \<^item> \<open>getFileOrSTDIN\<close>: \<^verbatim>\<open>MemoryBuffer::getFileOrSTDIN(name, false, false)\<close>; its
    \<^verbatim>\<open>ErrorOr\<close> is a sum, \<open>Inl\<close> the error.
  \<^item> \<open>message\<close>: \<^verbatim>\<open>std::error_code::message\<close>.
  \<^item> \<open>GCOVFile_new\<close>: the default-constructed \<^verbatim>\<open>GCOVFile\<close>.
  \<^item> \<open>readGCNO b g\<close>: \<^verbatim>\<open>GF.readGCNO\<close> on a new \<^verbatim>\<open>GCOVBuffer\<close> over \<open>b\<close>, from
    graph state \<open>g\<close>: the result and the graph afterwards (a failed read may have changed it).
  \<^item> \<open>readGCDAFormat b\<close>: \<^verbatim>\<open>readGCDAFormat\<close> on a new \<^verbatim>\<open>GCOVBuffer\<close> over \<open>b\<close>.
  \<^item> \<open>readGCDA b g\<close>: \<^verbatim>\<open>GF.readGCDA\<close> on that \<^verbatim>\<open>GCOVBuffer\<close>, after its
    \<^verbatim>\<open>readGCDAFormat\<close> has succeeded.
  Each field is a function of its arguments: during one run of the tool the same call
  gives the same answer (the files do not change under it).
\<close>

record ('buf, 'gf) world =
  parent_path :: "string \<Rightarrow> string"
  stem :: "string \<Rightarrow> string"
  path_append :: "string \<Rightarrow> string \<Rightarrow> string"
  replace_extension :: "string \<Rightarrow> string \<Rightarrow> string"
  is_directory :: "string \<Rightarrow> bool"
  getFileOrSTDIN :: "string \<Rightarrow> error_code + 'buf"
  message :: "error_code \<Rightarrow> string"
  GCOVFile_new :: "'gf"
  readGCNO :: "'buf \<Rightarrow> 'gf \<Rightarrow> bool \<times> 'gf"
  readGCDAFormat :: "'buf \<Rightarrow> bool"
  readGCDA :: "'buf \<Rightarrow> 'gf \<Rightarrow> bool \<times> 'gf"

text \<open>
  What the code does to the outside, one event for each statement that does it:
  \<^item> \<open>Errs s\<close>: gcov.cpp itself writes the text \<open>s\<close> to \<^verbatim>\<open>errs()\<close>;
  \<^item> \<open>GetFileOrSTDIN n\<close>: the file named \<open>n\<close> is opened and read;
  \<^item> \<open>ReadGCNO b g\<close>, \<open>ReadGCDAFormat b\<close>, \<open>ReadGCDA b g\<close>: the readers are called, on
    buffer \<open>b\<close> and with the graph in state \<open>g\<close>;
  \<^item> \<open>Print g\<close>: \<^verbatim>\<open>GF.print(errs())\<close>, the debug dump of the graph;
  \<^item> \<open>GcovOneInput opts src gcno gcda g\<close>: the renderer is called.
\<close>

datatype ('buf, 'gf) event =
  Errs string
| GetFileOrSTDIN string
| ReadGCNO 'buf 'gf
| ReadGCDAFormat 'buf
| ReadGCDA 'buf 'gf
| Print 'gf
| GcovOneInput GCOV_Options string string string 'gf

type_synonym ('buf, 'gf) trace = "('buf, 'gf) event list"

subsection \<open>Path resolver\<close>

definition createCoverageFileStem :: "('buf, 'gf) world \<Rightarrow> string \<Rightarrow> string \<Rightarrow> string" where
  "createCoverageFileStem W SourceFile ObjDir =
     (let CoverageFileStem = ObjDir in
        if CoverageFileStem = [] then
          path_append W (parent_path W SourceFile) (stem W SourceFile)
        else if is_directory W ObjDir then
          path_append W CoverageFileStem (stem W SourceFile)
        else
          replace_extension W CoverageFileStem [])"

definition createInputFileName :: "string \<Rightarrow> string \<Rightarrow> string \<Rightarrow> string" where
  "createInputFileName CoverageFileStem InputGCFileName extensionSuffix =
     (if InputGCFileName = [] then CoverageFileStem @ ''.gc'' @ extensionSuffix
      else InputGCFileName)"

subsection \<open>Loading, validation and reporting\<close>

definition newline :: string where
  "newline = [CHR 0x0A]"

definition reportGCOVFileNameError ::
  "('buf, 'gf) world \<Rightarrow> string \<Rightarrow> error_code \<Rightarrow> ('buf, 'gf) trace \<Rightarrow> ('buf, 'gf) trace" where
  "reportGCOVFileNameError W GCOVFileName EC tr =
     tr @ [Errs (GCOVFileName @ '': '' @ message W EC @ newline)]"

definition validateGCNOFile ::
  "('buf, 'gf) world \<Rightarrow> 'buf \<Rightarrow> 'gf \<Rightarrow> ('buf, 'gf) trace \<Rightarrow> bool \<times> 'gf \<times> ('buf, 'gf) trace" where
  "validateGCNOFile W GCNO_Buff GF tr =
     (let (ok, GF') = readGCNO W GCNO_Buff GF;
          tr = tr @ [ReadGCNO GCNO_Buff GF]
      in if \<not> ok then (False, GF', tr @ [Errs (''Invalid .gcno File!'' @ newline)])
         else (True, GF', tr))"

definition validateGCDAFile ::
  "('buf, 'gf) world \<Rightarrow> 'gf \<Rightarrow> string \<Rightarrow> 'buf \<Rightarrow> ('buf, 'gf) trace \<Rightarrow> 'gf \<times> ('buf, 'gf) trace" where
  "validateGCDAFile W GF GCDA GCDA_Buff tr =
     (let tr = tr @ [ReadGCDAFormat GCDA_Buff] in
        if \<not> readGCDAFormat W GCDA_Buff then
          (GF, tr @ [Errs (GCDA @ '':not a gcov data file'' @ newline)])
        else
          (let (ok, GF') = readGCDA W GCDA_Buff GF;
               tr = tr @ [ReadGCDA GCDA_Buff GF]
           in if \<not> ok then (GF', tr @ [Errs (''Invalid .gcda File!'' @ newline)])
              else (GF', tr)))"

text \<open>
  \<^verbatim>\<open>reportCoverage\<close>. Each \<^verbatim>\<open>return\<close> of the source is a branch that yields the trace;
  the load of the data file yields either that (\<open>Inl\<close>, the early return) or the data-file
  name and the graph with which the common tail of the function goes on (\<open>Inr\<close>).
\<close>

definition reportCoverage ::
  "('buf, 'gf) world \<Rightarrow> string \<Rightarrow> string \<Rightarrow> string \<Rightarrow> string \<Rightarrow> bool \<Rightarrow> GCOV_Options \<Rightarrow>
     ('buf, 'gf) trace \<Rightarrow> ('buf, 'gf) trace" where
  "reportCoverage W SourceFile ObjDir InGCNO InGCDA Dump Opts tr =
     (let GF = GCOVFile_new W;
          CoverageFileStem = createCoverageFileStem W SourceFile ObjDir;
          GCNO = createInputFileName CoverageFileStem InGCNO ''no'';
          tr = tr @ [GetFileOrSTDIN GCNO]
      in case getFileOrSTDIN W GCNO of
           Inl EC \<Rightarrow> reportGCOVFileNameError W GCNO EC tr
         | Inr GCNO_Buff \<Rightarrow>
             (case validateGCNOFile W GCNO_Buff GF tr of
                (False, GF, tr) \<Rightarrow> tr
              | (True, GF, tr) \<Rightarrow>
                  (let GCDA = createInputFileName CoverageFileStem InGCDA ''da'';
                       tr = tr @ [GetFileOrSTDIN GCDA]
                   in case (case getFileOrSTDIN W GCDA of
                              Inl EC \<Rightarrow>
                                if EC \<noteq> no_such_file_or_directory
                                then Inl (reportGCOVFileNameError W GCDA EC tr)
                                else Inr (''-'', GF, tr)
                            | Inr GCDA_Buff \<Rightarrow>
                                (let (GF, tr) = validateGCDAFile W GF GCDA GCDA_Buff tr
                                 in Inr (GCDA, GF, tr))) of
                        Inl tr \<Rightarrow> tr
                      | Inr (GCDA, GF, tr) \<Rightarrow>
                          (let tr = (if Dump then tr @ [Print GF] else tr)
                           in tr @ [GcovOneInput Opts SourceFile GCNO GCDA GF]))))"

subsection \<open>Driver\<close>

text \<open>
  \<^verbatim>\<open>gcovMain\<close> after the command line is parsed: it builds the options, runs
  \<^verbatim>\<open>reportCoverage\<close> on each source file in turn and returns 0. The result is the trace of
  the whole run and the exit status.
\<close>

definition gcovMain :: "('buf, 'gf) world \<Rightarrow> cmdline \<Rightarrow> ('buf, 'gf) trace \<times> int" where
  "gcovMain W C =
     (let Opts = Options (AllBlocks C) (BranchProb C) (BranchCount C) (FuncSummary C)
                   (PreservePaths C) (UncondBranch C) (Intermediate C) (LongNames C)
                   (Demangle C) (NoOutput C) (RelativeOnly C) (UseStdout C)
                   (HashFilenames C) (SourcePrefix C)
      in (foldl (\<lambda>tr SourceFile.
                   reportCoverage W SourceFile (ObjectDir C) (InputGCNO C) (InputGCDA C)
                     (DumpGCOV C) Opts tr)
            [] (SourceFiles C),
          0))"



subsection \<open>A concrete world\<close>

text \<open>
  Modelled from the spec: the bodies of \<^verbatim>\<open>sys::path::parent_path\<close>, \<^verbatim>\<open>stem\<close>,
  \<^verbatim>\<open>append\<close> and \<^verbatim>\<open>replace_extension\<close> are not in gcov.cpp. The functions
  \<open>posix_parent_path\<close>, \<open>posix_stem\<close>, \<open>posix_append\<close> and \<open>posix_replace_extension\<close>
  give them the meaning of the spec's words (the parent directory of a path, its base name
  with the extension stripped, a path joined with a component, a path with its extension
  removed) on paths separated by \<open>/\<close>. They are one instance of the world's path fields,
  the one at which the theorems below are evaluated; no theorem depends on them otherwise.
\<close>

definition posix_filename :: "string \<Rightarrow> string" where
  "posix_filename p = rev (takeWhile (\<lambda>c. c \<noteq> CHR ''/'') (rev p))"

definition posix_parent_path :: "string \<Rightarrow> string" where
  "posix_parent_path p =
     (let d = dropWhile (\<lambda>c. c \<noteq> CHR ''/'') (rev p);
          d' = dropWhile (\<lambda>c. c = CHR ''/'') d
      in if d' = [] \<and> d \<noteq> [] then ''/'' else rev d')"

definition strip_extension :: "string \<Rightarrow> string" where
  "strip_extension p =
     (if CHR ''.'' \<in> set (posix_filename p)
      then rev (tl (dropWhile (\<lambda>c. c \<noteq> CHR ''.'') (rev p)))
      else p)"

definition posix_stem :: "string \<Rightarrow> string" where
  "posix_stem p =
     (let f = posix_filename p in if f = ''.'' \<or> f = ''..'' then f else strip_extension f)"

definition posix_append :: "string \<Rightarrow> string \<Rightarrow> string" where
  "posix_append p c =
     (if c = [] then p
      else if p \<noteq> [] \<and> last p = CHR ''/'' then p @ dropWhile (\<lambda>x. x = CHR ''/'') c
      else if p = [] \<or> hd c = CHR ''/'' then p @ c
      else p @ ''/'' @ c)"

definition posix_replace_extension :: "string \<Rightarrow> string \<Rightarrow> string" where
  "posix_replace_extension p ext =
     strip_extension p @ (if ext \<noteq> [] \<and> hd ext \<noteq> CHR ''.'' then ''.'' else []) @ ext"


text \<open>
  Modelled from the spec: the file system, the error messages, the graph and its readers
  are not in gcov.cpp either. \<open>example_world\<close> is a small instance: a directory \<open>src\<close> that
  holds notes and data files in every state the pipeline tells apart, buffers that are
  strings, a notes reader that accepts the buffers starting with \<open>oncg\<close>, a data header
  check that accepts those starting with \<open>adcg\<close>, a data reader that rejects the buffer
  \<open>adcg!\<close>, and a graph that is the list of the buffers read into it.
\<close>

definition example_files :: "(string \<times> (error_code + string)) list" where
  "example_files =
     [(''src/foo.gcno'', Inr ''oncg foo''), (''src/foo.gcda'', Inr ''adcg foo''),
      (''src/bar.gcno'', Inr ''oncg bar''),
      (''src/bad.gcno'', Inr ''junk''),
      (''src/baz.gcno'', Inr ''oncg baz''), (''src/baz.gcda'', Inr ''junk''),
      (''src/qux.gcno'', Inr ''oncg qux''), (''src/qux.gcda'', Inr ''adcg!''),
      (''src/locked.gcno'', Inl (other_error 13)),
      (''src/dir.gcno'', Inr ''oncg dir''), (''src/dir.gcda'', Inl (other_error 21))]"

definition example_world :: "(string, string list) world" where
  "example_world =
     \<lparr> parent_path = posix_parent_path,
       stem = posix_stem,
       path_append = posix_append,
       replace_extension = posix_replace_extension,
       is_directory = (\<lambda>p. p = ''build'' \<or> p = ''src''),
       getFileOrSTDIN =
         (\<lambda>n. case map_of example_files n of
                 None \<Rightarrow> Inl no_such_file_or_directory
               | Some r \<Rightarrow> r),
       message =
         (\<lambda>ec. case ec of
                  no_such_file_or_directory \<Rightarrow> ''No such file or directory''
                | other_error n \<Rightarrow>
                    if n = 13 then ''Permission denied''
                    else if n = 21 then ''Is a directory''
                    else ''Unknown error''),
       GCOVFile_new = [],
       readGCNO = (\<lambda>b g. (take 4 b = ''oncg'', g @ [b])),
       readGCDAFormat = (\<lambda>b. take 4 b = ''adcg''),
       readGCDA = (\<lambda>b g. (b \<noteq> ''adcg!'', g @ [b])) \<rparr>"

text \<open>The options and the command line of the examples.\<close>

definition example_options :: GCOV_Options where
  "example_options =
     Options False False False False False False False False False False False False False []"


definition example_cmdline :: cmdline where
  "example_cmdline =
     \<lparr> SourceFiles = [''src/locked.c'', ''src/foo.c'', ''src/bar.c''],
       AllBlocks = False, BranchProb = False, BranchCount = False, LongNames = False,
       FuncSummary = False, Intermediate = False, Demangle = False, NoOutput = False,
       ObjectDir = [], PreservePaths = False, RelativeOnly = False, SourcePrefix = [],
       UseStdout = False, UncondBranch = False, HashFilenames = False, DumpGCOV = False,
       InputGCNO = [], InputGCDA = [] \<rparr>"

section \<open>Properties\<close>

subsection \<open>Shared facts\<close>

lemmas pipeline_defs =
  reportCoverage_def validateGCNOFile_def validateGCDAFile_def reportGCOVFileNameError_def

lemmas example_defs =
  example_world_def example_files_def example_options_def createCoverageFileStem_def
  createInputFileName_def posix_parent_path_def posix_stem_def posix_append_def
  posix_replace_extension_def posix_filename_def strip_extension_def

text \<open>
  A run of the pipeline only adds events to the trace, and what it adds does not depend on
  the trace it started from.
\<close>

lemma reportCoverage_extends:
  "reportCoverage W src od ign igd dump opts tr =
     tr @ reportCoverage W src od ign igd dump opts []"
  by (auto simp add: pipeline_defs Let_def split: sum.splits prod.splits bool.splits)

lemma foldl_reportCoverage:
  "foldl (\<lambda>tr src. reportCoverage W src od ign igd dump opts tr) tr0 srcs =
     tr0 @ concat (map (\<lambda>src. reportCoverage W src od ign igd dump opts []) srcs)"
proof (induction srcs arbitrary: tr0)
  case Nil
  show ?case by simp
next
  case (Cons s srcs)
  show ?case
    by (simp add: Cons.IH) (subst reportCoverage_extends, simp)
qed

text \<open>
  Every graph that one run of the pipeline hands to a reader or to the renderer comes from
  the default-constructed graph by reading this run's own files.
\<close>

lemma reportCoverage_events:
  assumes "e \<in> set (reportCoverage W src od ign igd dump opts [])"
  shows "(\<forall>b g. e = ReadGCNO b g \<longrightarrow> g = GCOVFile_new W) \<and>
         (\<forall>b g. e = ReadGCDA b g \<longrightarrow> (\<exists>nb. g = snd (readGCNO W nb (GCOVFile_new W)))) \<and>
         (\<forall>opts' s n d g. e = GcovOneInput opts' s n d g \<longrightarrow>
              s = src \<and>
              (\<exists>nb. getFileOrSTDIN W n = Inr nb \<and>
                    (g = snd (readGCNO W nb (GCOVFile_new W)) \<or>
                     (\<exists>db. getFileOrSTDIN W d = Inr db \<and>
                           g = snd (readGCDA W db (snd (readGCNO W nb (GCOVFile_new W))))))))"
  using assms
  by (auto simp add: pipeline_defs Let_def split: sum.splits prod.splits bool.splits if_splits)
    (metis snd_conv)+

text \<open>
  The driver on the example command line: the first source file fails at its notes file,
  the second has both files, the third has no data file.
\<close>

lemma example_run:
  "gcovMain example_world example_cmdline =
     ([GetFileOrSTDIN ''src/locked.gcno'',
       Errs (''src/locked.gcno: Permission denied'' @ newline),
       GetFileOrSTDIN ''src/foo.gcno'', ReadGCNO ''oncg foo'' [],
       GetFileOrSTDIN ''src/foo.gcda'', ReadGCDAFormat ''adcg foo'',
       ReadGCDA ''adcg foo'' [''oncg foo''],
       GcovOneInput example_options ''src/foo.c'' ''src/foo.gcno'' ''src/foo.gcda''
         [''oncg foo'', ''adcg foo''],
       GetFileOrSTDIN ''src/bar.gcno'', ReadGCNO ''oncg bar'' [],
       GetFileOrSTDIN ''src/bar.gcda'',
       GcovOneInput example_options ''src/bar.c'' ''src/bar.gcno'' ''-'' [''oncg bar'']],
      0)"
  by (simp add: gcovMain_def example_cmdline_def pipeline_defs example_defs Let_def)

subsection \<open>Path resolver\<close>

text \<open>
  C6: \<^verbatim>\<open>createCoverageFileStem\<close> follows the three-way rule, in this order. With an empty
  object-dir override the stem is the parent directory of the source path joined with the
  stem of the source path (its base name with the extension stripped). With a non-empty
  override that is a directory, the stem is the override joined with the stem of the source
  path, so two source paths with the same stem get the same result whatever their
  directories. With any other override the stem is the override with its extension
  replaced by nothing, the same for every source path.
\<close>

theorem createCoverageFileStem_three_way:
  "(od = [] \<longrightarrow>
      createCoverageFileStem W p od = path_append W (parent_path W p) (stem W p)) \<and>
   (od \<noteq> [] \<and> is_directory W od \<longrightarrow>
      createCoverageFileStem W p od = path_append W od (stem W p) \<and>
      (stem W p' = stem W p \<longrightarrow>
         createCoverageFileStem W p' od = createCoverageFileStem W p od)) \<and>
   (od \<noteq> [] \<and> \<not> is_directory W od \<longrightarrow>
      createCoverageFileStem W p od = replace_extension W od [] \<and>
      createCoverageFileStem W p' od = createCoverageFileStem W p od)"
  by (simp add: createCoverageFileStem_def)

theorem createCoverageFileStem_three_way_witness:
  "createCoverageFileStem example_world ''src/foo.c'' [] = ''src/foo'' \<and>
   (''build'' \<noteq> [] \<and> is_directory example_world ''build'' \<and>
    createCoverageFileStem example_world ''src/foo.c'' ''build'' = ''build/foo'' \<and>
    stem example_world ''lib/x/foo.cpp'' = stem example_world ''src/foo.c'' \<and>
    createCoverageFileStem example_world ''lib/x/foo.cpp'' ''build'' = ''build/foo'') \<and>
   (''obj/main.o'' \<noteq> [] \<and> \<not> is_directory example_world ''obj/main.o'' \<and>
    createCoverageFileStem example_world ''src/foo.c'' ''obj/main.o'' = ''obj/main'' \<and>
    createCoverageFileStem example_world ''lib/bar.c'' ''obj/main.o'' = ''obj/main'')"
  using
    createCoverageFileStem_three_way [of "[]" example_world "''src/foo.c''" "''src/foo.c''"]
    createCoverageFileStem_three_way [of "''build''" example_world "''src/foo.c''"
      "''lib/x/foo.cpp''"]
    createCoverageFileStem_three_way [of "''obj/main.o''" example_world "''src/foo.c''"
      "''lib/bar.c''"]
  by (simp add: example_defs)

text \<open>
  C7: \<^verbatim>\<open>createInputFileName\<close> returns a non-empty override as it is, whatever the stem;
  with no override (the empty string) it returns the stem followed by \<open>.gcno\<close> for the
  suffix \<open>no\<close> and by \<open>.gcda\<close> for the suffix \<open>da\<close>.
\<close>

theorem createInputFileName_override_or_default:
  "(InputGCFileName \<noteq> [] \<longrightarrow>
      createInputFileName CoverageFileStem InputGCFileName suffix = InputGCFileName) \<and>
   createInputFileName CoverageFileStem [] ''no'' = CoverageFileStem @ ''.gcno'' \<and>
   createInputFileName CoverageFileStem [] ''da'' = CoverageFileStem @ ''.gcda''"
  by (simp add: createInputFileName_def)

theorem createInputFileName_override_or_default_witness:
  "''/tmp/x.gcno'' \<noteq> [] \<and>
   createInputFileName ''src/foo'' ''/tmp/x.gcno'' ''no'' = ''/tmp/x.gcno'' \<and>
   createInputFileName ''src/foo'' [] ''no'' = ''src/foo.gcno'' \<and>
   createInputFileName ''src/foo'' [] ''da'' = ''src/foo.gcda''"
  using createInputFileName_override_or_default [of "''/tmp/x.gcno''" "''src/foo''" "''no''"]
  by simp

subsection \<open>The pipeline, case by case\<close>

text \<open>
  In each theorem, \<open>GCNO\<close> and \<open>GCDA\<close> are the names of the notes file and of the data file
  as the pipeline computes them, and the conclusion gives everything the run adds to the
  trace: which files it opens, which readers it calls, each text it writes to the
  diagnostic stream (every message ends with a newline), and whether the renderer is
  called and with what. An event that is not listed does not happen.
\<close>

text \<open>
  C4: when the notes file fails to load, with any error code, the pipeline writes
  \<open>GCNO: message\<close> to the diagnostic stream and returns: the notes reader, the load of the
  data file and the renderer are not reached. The function is total, so the run ends
  normally.
\<close>

theorem notes_load_error_abandons:
  assumes "GCNO = createInputFileName (createCoverageFileStem W src od) ign ''no''"
    and "getFileOrSTDIN W GCNO = Inl EC"
  shows "reportCoverage W src od ign igd dump opts tr =
           tr @ [GetFileOrSTDIN GCNO, Errs (GCNO @ '': '' @ message W EC @ newline)]"
  using assms by (simp add: pipeline_defs Let_def)

theorem notes_load_error_abandons_witness:
  "(getFileOrSTDIN example_world ''src/locked.gcno'' = Inl (other_error 13) \<and>
    reportCoverage example_world ''src/locked.c'' [] [] [] True example_options [] =
      [GetFileOrSTDIN ''src/locked.gcno'',
       Errs (''src/locked.gcno: Permission denied'' @ newline)]) \<and>
   (getFileOrSTDIN example_world ''src/absent.gcno'' = Inl no_such_file_or_directory \<and>
    reportCoverage example_world ''src/absent.c'' [] [] [] True example_options [] =
      [GetFileOrSTDIN ''src/absent.gcno'',
       Errs (''src/absent.gcno: No such file or directory'' @ newline)])"
  using
    notes_load_error_abandons [of "''src/locked.gcno''" example_world "''src/locked.c''" "[]"
      "[]" "other_error 13" "[]" True example_options "[]"]
    notes_load_error_abandons [of "''src/absent.gcno''" example_world "''src/absent.c''" "[]"
      "[]" no_such_file_or_directory "[]" True example_options "[]"]
  by (simp add: example_defs)

text \<open>
  C3: when the notes file loads and the notes reader rejects it, the pipeline writes
  \<open>Invalid .gcno File!\<close> and nothing else, does not open the data file and does not call
  the renderer.
\<close>

theorem malformed_notes_file_abandons:
  assumes "GCNO = createInputFileName (createCoverageFileStem W src od) ign ''no''"
    and "getFileOrSTDIN W GCNO = Inr nb"
    and "readGCNO W nb (GCOVFile_new W) = (False, g)"
  shows "reportCoverage W src od ign igd dump opts tr =
           tr @ [GetFileOrSTDIN GCNO, ReadGCNO nb (GCOVFile_new W),
                 Errs (''Invalid .gcno File!'' @ newline)]"
  using assms by (simp add: pipeline_defs Let_def)

theorem malformed_notes_file_abandons_witness:
  "getFileOrSTDIN example_world ''src/bad.gcno'' = Inr ''junk'' \<and>
   readGCNO example_world ''junk'' (GCOVFile_new example_world) = (False, [''junk'']) \<and>
   reportCoverage example_world ''src/bad.c'' [] [] [] True example_options [] =
     [GetFileOrSTDIN ''src/bad.gcno'', ReadGCNO ''junk'' [],
      Errs (''Invalid .gcno File!'' @ newline)]"
  using malformed_notes_file_abandons [of "''src/bad.gcno''" example_world "''src/bad.c''" "[]"
      "[]" "''junk''" "[''junk'']" "[]" True example_options "[]"]
  by (simp add: example_defs)

text \<open>
  C1: when the notes file loads and is accepted and the data file fails to load with
  \<^verbatim>\<open>no_such_file_or_directory\<close>, the pipeline writes no message, calls neither the header
  check nor the data reader, and calls the renderer with \<open>-\<close> as the data-file name and the
  graph as the notes reader left it. (With \<^verbatim>\<open>--dump\<close> the graph is printed before, by
  \<^verbatim>\<open>GCOVFile::print\<close>; that is the event \<open>Print\<close>, not a message of the pipeline.)
\<close>

theorem missing_data_file_falls_back:
  assumes "GCNO = createInputFileName (createCoverageFileStem W src od) ign ''no''"
    and "GCDA = createInputFileName (createCoverageFileStem W src od) igd ''da''"
    and "getFileOrSTDIN W GCNO = Inr nb"
    and "readGCNO W nb (GCOVFile_new W) = (True, g)"
    and "getFileOrSTDIN W GCDA = Inl no_such_file_or_directory"
  shows "reportCoverage W src od ign igd dump opts tr =
           tr @ [GetFileOrSTDIN GCNO, ReadGCNO nb (GCOVFile_new W), GetFileOrSTDIN GCDA] @
             (if dump then [Print g] else []) @
             [GcovOneInput opts src GCNO ''-'' g]"
  using assms by (simp add: pipeline_defs Let_def)

theorem missing_data_file_falls_back_witness:
  "getFileOrSTDIN example_world ''src/bar.gcno'' = Inr ''oncg bar'' \<and>
   readGCNO example_world ''oncg bar'' (GCOVFile_new example_world) = (True, [''oncg bar'']) \<and>
   getFileOrSTDIN example_world ''src/bar.gcda'' = Inl no_such_file_or_directory \<and>
   reportCoverage example_world ''src/bar.c'' [] [] [] True example_options [] =
     [GetFileOrSTDIN ''src/bar.gcno'', ReadGCNO ''oncg bar'' [], GetFileOrSTDIN ''src/bar.gcda'',
      Print [''oncg bar''],
      GcovOneInput example_options ''src/bar.c'' ''src/bar.gcno'' ''-'' [''oncg bar'']]"
  using missing_data_file_falls_back [of "''src/bar.gcno''" example_world "''src/bar.c''" "[]" "[]"
      "''src/bar.gcda''" "[]" "''oncg bar''" "[''oncg bar'']" True example_options "[]"]
  by (simp add: example_defs)

text \<open>
  C10: the same holds when the data-file name is an explicit override (\<^verbatim>\<open>--gcda\<close>, a
  non-empty \<open>InGCDA\<close>) and that file does not exist: no message, \<open>-\<close> as the data-file name,
  and the renderer is called with the notes-only graph.
\<close>

theorem explicit_gcda_missing_falls_back:
  assumes "InGCDA \<noteq> []"
    and "GCNO = createInputFileName (createCoverageFileStem W src od) ign ''no''"
    and "getFileOrSTDIN W GCNO = Inr nb"
    and "readGCNO W nb (GCOVFile_new W) = (True, g)"
    and "getFileOrSTDIN W InGCDA = Inl no_such_file_or_directory"
  shows "reportCoverage W src od ign InGCDA dump opts tr =
           tr @ [GetFileOrSTDIN GCNO, ReadGCNO nb (GCOVFile_new W), GetFileOrSTDIN InGCDA] @
             (if dump then [Print g] else []) @
             [GcovOneInput opts src GCNO ''-'' g]"
  using assms by (simp add: pipeline_defs Let_def createInputFileName_def)

theorem explicit_gcda_missing_falls_back_witness:
  "''run1/foo.gcda'' \<noteq> [] \<and>
   getFileOrSTDIN example_world ''src/foo.gcno'' = Inr ''oncg foo'' \<and>
   readGCNO example_world ''oncg foo'' (GCOVFile_new example_world) = (True, [''oncg foo'']) \<and>
   getFileOrSTDIN example_world ''run1/foo.gcda'' = Inl no_such_file_or_directory \<and>
   reportCoverage example_world ''src/foo.c'' [] [] ''run1/foo.gcda'' False example_options [] =
     [GetFileOrSTDIN ''src/foo.gcno'', ReadGCNO ''oncg foo'' [],
      GetFileOrSTDIN ''run1/foo.gcda'',
      GcovOneInput example_options ''src/foo.c'' ''src/foo.gcno'' ''-'' [''oncg foo'']]"
  using explicit_gcda_missing_falls_back [of "''run1/foo.gcda''" "''src/foo.gcno''" example_world
      "''src/foo.c''" "[]" "[]" "''oncg foo''" "[''oncg foo'']" False example_options "[]"]
  by (simp add: example_defs)

text \<open>
  C5: when the notes file loads and is accepted and the data file fails to load with any
  error code other than \<^verbatim>\<open>no_such_file_or_directory\<close>, the pipeline writes
  \<open>GCDA: message\<close> and returns without calling the renderer.
\<close>

theorem data_load_error_abandons:
  assumes "GCNO = createInputFileName (createCoverageFileStem W src od) ign ''no''"
    and "GCDA = createInputFileName (createCoverageFileStem W src od) igd ''da''"
    and "getFileOrSTDIN W GCNO = Inr nb"
    and "readGCNO W nb (GCOVFile_new W) = (True, g)"
    and "getFileOrSTDIN W GCDA = Inl EC"
    and "EC \<noteq> no_such_file_or_directory"
  shows "reportCoverage W src od ign igd dump opts tr =
           tr @ [GetFileOrSTDIN GCNO, ReadGCNO nb (GCOVFile_new W), GetFileOrSTDIN GCDA,
                 Errs (GCDA @ '': '' @ message W EC @ newline)]"
  using assms by (simp add: pipeline_defs Let_def)

theorem data_load_error_abandons_witness:
  "getFileOrSTDIN example_world ''src/dir.gcno'' = Inr ''oncg dir'' \<and>
   readGCNO example_world ''oncg dir'' (GCOVFile_new example_world) = (True, [''oncg dir'']) \<and>
   getFileOrSTDIN example_world ''src/dir.gcda'' = Inl (other_error 21) \<and>
   other_error 21 \<noteq> no_such_file_or_directory \<and>
   reportCoverage example_world ''src/dir.c'' [] [] [] True example_options [] =
     [GetFileOrSTDIN ''src/dir.gcno'', ReadGCNO ''oncg dir'' [], GetFileOrSTDIN ''src/dir.gcda'',
      Errs (''src/dir.gcda: Is a directory'' @ newline)]"
proof -
  have n: "''src/dir.gcno'' =
      createInputFileName (createCoverageFileStem example_world ''src/dir.c'' []) [] ''no''"
    by (simp add: example_defs)
  have d: "''src/dir.gcda'' =
      createInputFileName (createCoverageFileStem example_world ''src/dir.c'' []) [] ''da''"
    by (simp add: example_defs)
  have h1: "getFileOrSTDIN example_world ''src/dir.gcno'' = Inr ''oncg dir''"
    by (simp add: example_world_def example_files_def)
  have h2: "readGCNO example_world ''oncg dir'' (GCOVFile_new example_world) =
      (True, [''oncg dir''])"
    by (simp add: example_world_def)
  have h3: "getFileOrSTDIN example_world ''src/dir.gcda'' = Inl (other_error 21)"
    by (simp add: example_world_def example_files_def)
  have h4: "other_error 21 \<noteq> no_such_file_or_directory"
    by simp
  have m: "message example_world (other_error 21) = ''Is a directory''"
    by (simp add: example_world_def)
  have g: "GCOVFile_new example_world = []"
    by (simp add: example_world_def)
  show ?thesis
    using data_load_error_abandons [OF n d h1 h2 h3 h4, of True example_options "[]"] h1 h2 h3
    by (simp add: m g)
qed

text \<open>
  C2: when both files load and the notes file is accepted: if the header check of the data
  buffer fails, the pipeline writes \<open>GCDA:not a gcov data file\<close> and does not call the data
  reader; if the header check succeeds and the data reader rejects the buffer, it writes
  \<open>Invalid .gcda File!\<close>. In both cases it then calls the renderer, under the data file's
  own name, with the graph as the last reader left it.
\<close>

theorem malformed_data_file_degrades_report:
  assumes "GCNO = createInputFileName (createCoverageFileStem W src od) ign ''no''"
    and "GCDA = createInputFileName (createCoverageFileStem W src od) igd ''da''"
    and "getFileOrSTDIN W GCNO = Inr nb"
    and "readGCNO W nb (GCOVFile_new W) = (True, g)"
    and "getFileOrSTDIN W GCDA = Inr db"
  shows "(\<not> readGCDAFormat W db \<longrightarrow>
            reportCoverage W src od ign igd dump opts tr =
              tr @ [GetFileOrSTDIN GCNO, ReadGCNO nb (GCOVFile_new W), GetFileOrSTDIN GCDA,
                    ReadGCDAFormat db, Errs (GCDA @ '':not a gcov data file'' @ newline)] @
                (if dump then [Print g] else []) @
                [GcovOneInput opts src GCNO GCDA g]) \<and>
         (readGCDAFormat W db \<and> readGCDA W db g = (False, g') \<longrightarrow>
            reportCoverage W src od ign igd dump opts tr =
              tr @ [GetFileOrSTDIN GCNO, ReadGCNO nb (GCOVFile_new W), GetFileOrSTDIN GCDA,
                    ReadGCDAFormat db, ReadGCDA db g, Errs (''Invalid .gcda File!'' @ newline)] @
                (if dump then [Print g'] else []) @
                [GcovOneInput opts src GCNO GCDA g'])"
  using assms by (simp add: pipeline_defs Let_def)

theorem malformed_data_file_degrades_report_witness:
  "(getFileOrSTDIN example_world ''src/baz.gcno'' = Inr ''oncg baz'' \<and>
    readGCNO example_world ''oncg baz'' (GCOVFile_new example_world) = (True, [''oncg baz'']) \<and>
    getFileOrSTDIN example_world ''src/baz.gcda'' = Inr ''junk'' \<and>
    \<not> readGCDAFormat example_world ''junk'' \<and>
    reportCoverage example_world ''src/baz.c'' [] [] [] False example_options [] =
      [GetFileOrSTDIN ''src/baz.gcno'', ReadGCNO ''oncg baz'' [], GetFileOrSTDIN ''src/baz.gcda'',
       ReadGCDAFormat ''junk'', Errs (''src/baz.gcda:not a gcov data file'' @ newline),
       GcovOneInput example_options ''src/baz.c'' ''src/baz.gcno'' ''src/baz.gcda''
         [''oncg baz'']]) \<and>
   (getFileOrSTDIN example_world ''src/qux.gcno'' = Inr ''oncg qux'' \<and>
    readGCNO example_world ''oncg qux'' (GCOVFile_new example_world) = (True, [''oncg qux'']) \<and>
    getFileOrSTDIN example_world ''src/qux.gcda'' = Inr ''adcg!'' \<and>
    readGCDAFormat example_world ''adcg!'' \<and>
    readGCDA example_world ''adcg!'' [''oncg qux''] = (False, [''oncg qux'', ''adcg!'']) \<and>
    reportCoverage example_world ''src/qux.c'' [] [] [] False example_options [] =
      [GetFileOrSTDIN ''src/qux.gcno'', ReadGCNO ''oncg qux'' [], GetFileOrSTDIN ''src/qux.gcda'',
       ReadGCDAFormat ''adcg!'', ReadGCDA ''adcg!'' [''oncg qux''],
       Errs (''Invalid .gcda File!'' @ newline),
       GcovOneInput example_options ''src/qux.c'' ''src/qux.gcno'' ''src/qux.gcda''
         [''oncg qux'', ''adcg!'']])"
proof -
  have g: "GCOVFile_new example_world = []"
    by (simp add: example_world_def)
  have bn: "''src/baz.gcno'' =
      createInputFileName (createCoverageFileStem example_world ''src/baz.c'' []) [] ''no''"
    by (simp add: example_defs)
  have bd: "''src/baz.gcda'' =
      createInputFileName (createCoverageFileStem example_world ''src/baz.c'' []) [] ''da''"
    by (simp add: example_defs)
  have b1: "getFileOrSTDIN example_world ''src/baz.gcno'' = Inr ''oncg baz''"
    by (simp add: example_world_def example_files_def)
  have b2: "readGCNO example_world ''oncg baz'' (GCOVFile_new example_world) =
      (True, [''oncg baz''])"
    by (simp add: example_world_def)
  have b3: "getFileOrSTDIN example_world ''src/baz.gcda'' = Inr ''junk''"
    by (simp add: example_world_def example_files_def)
  have b4: "\<not> readGCDAFormat example_world ''junk''"
    by (simp add: example_world_def)
  have qn: "''src/qux.gcno'' =
      createInputFileName (createCoverageFileStem example_world ''src/qux.c'' []) [] ''no''"
    by (simp add: example_defs)
  have qd: "''src/qux.gcda'' =
      createInputFileName (createCoverageFileStem example_world ''src/qux.c'' []) [] ''da''"
    by (simp add: example_defs)
  have q1: "getFileOrSTDIN example_world ''src/qux.gcno'' = Inr ''oncg qux''"
    by (simp add: example_world_def example_files_def)
  have q2: "readGCNO example_world ''oncg qux'' (GCOVFile_new example_world) =
      (True, [''oncg qux''])"
    by (simp add: example_world_def)
  have q3: "getFileOrSTDIN example_world ''src/qux.gcda'' = Inr ''adcg!''"
    by (simp add: example_world_def example_files_def)
  have q4: "readGCDAFormat example_world ''adcg!''"
    by (simp add: example_world_def)
  have q5: "readGCDA example_world ''adcg!'' [''oncg qux''] = (False, [''oncg qux'', ''adcg!''])"
    by (simp add: example_world_def)
  have baz: "reportCoverage example_world ''src/baz.c'' [] [] [] False example_options [] =
      [GetFileOrSTDIN ''src/baz.gcno'', ReadGCNO ''oncg baz'' [], GetFileOrSTDIN ''src/baz.gcda'',
       ReadGCDAFormat ''junk'', Errs (''src/baz.gcda:not a gcov data file'' @ newline),
       GcovOneInput example_options ''src/baz.c'' ''src/baz.gcno'' ''src/baz.gcda''
         [''oncg baz'']]"
    using malformed_data_file_degrades_report [OF bn bd b1 b2 b3, of False example_options "[]"] b4
    by (simp add: g)
  have qux: "reportCoverage example_world ''src/qux.c'' [] [] [] False example_options [] =
      [GetFileOrSTDIN ''src/qux.gcno'', ReadGCNO ''oncg qux'' [], GetFileOrSTDIN ''src/qux.gcda'',
       ReadGCDAFormat ''adcg!'', ReadGCDA ''adcg!'' [''oncg qux''],
       Errs (''Invalid .gcda File!'' @ newline),
       GcovOneInput example_options ''src/qux.c'' ''src/qux.gcno'' ''src/qux.gcda''
         [''oncg qux'', ''adcg!'']]"
    using malformed_data_file_degrades_report [OF qn qd q1 q2 q3,
        of False example_options "[]" "[''oncg qux'', ''adcg!'']"] q4 q5
    by (simp add: g)
  show ?thesis
    using b1 b2 b3 b4 baz q1 q2 q3 q4 q5 qux by simp
qed

subsection \<open>The driver\<close>

text \<open>
  C8: the trace of \<^verbatim>\<open>gcovMain\<close> is the concatenation, in command-line order, of the
  traces of one run of the pipeline for each source file, each the same as if that file
  were processed alone from an empty trace (so no entry's outcome changes another's), and
  the exit status is 0 whatever the runs did.
\<close>

theorem gcovMain_runs_every_source_file:
  "gcovMain W C =
     (concat (map (\<lambda>SourceFile.
                     reportCoverage W SourceFile (ObjectDir C) (InputGCNO C) (InputGCDA C)
                       (DumpGCOV C)
                       (Options (AllBlocks C) (BranchProb C) (BranchCount C) (FuncSummary C)
                          (PreservePaths C) (UncondBranch C) (Intermediate C) (LongNames C)
                          (Demangle C) (NoOutput C) (RelativeOnly C) (UseStdout C)
                          (HashFilenames C) (SourcePrefix C))
                       [])
                (SourceFiles C)),
      0)"
  by (simp add: gcovMain_def foldl_reportCoverage)

text \<open>
  C9: every run of the pipeline starts from a newly constructed graph, also when it is not
  the first run of the driver. In the trace of \<^verbatim>\<open>gcovMain\<close>, every call of the notes
  reader gets the default-constructed graph; every call of the data reader gets a graph
  that one notes read made from it; and every call of the renderer is for a source file of
  the command line and gets a graph made from the default-constructed one by reading the
  notes file named in that call and, at most, the data file named in that call.
\<close>

theorem fresh_graph_per_source_file:
  assumes "e \<in> set (fst (gcovMain W C))"
  shows "(\<forall>b g. e = ReadGCNO b g \<longrightarrow> g = GCOVFile_new W) \<and>
         (\<forall>b g. e = ReadGCDA b g \<longrightarrow> (\<exists>nb. g = snd (readGCNO W nb (GCOVFile_new W)))) \<and>
         (\<forall>opts' s n d g. e = GcovOneInput opts' s n d g \<longrightarrow>
              s \<in> set (SourceFiles C) \<and>
              (\<exists>nb. getFileOrSTDIN W n = Inr nb \<and>
                    (g = snd (readGCNO W nb (GCOVFile_new W)) \<or>
                     (\<exists>db. getFileOrSTDIN W d = Inr db \<and>
                           g = snd (readGCDA W db (snd (readGCNO W nb (GCOVFile_new W))))))))"
proof -
  from assms obtain src opts where
    "e \<in> set (reportCoverage W src (ObjectDir C) (InputGCNO C) (InputGCDA C) (DumpGCOV C) opts [])"
    and "src \<in> set (SourceFiles C)"
    by (auto simp add: gcovMain_def foldl_reportCoverage)
  from reportCoverage_events [OF this(1)] this(2) show ?thesis
    by blast
qed

theorem fresh_graph_per_source_file_witness:
  "ReadGCNO ''oncg bar'' [] \<in> set (fst (gcovMain example_world example_cmdline)) \<and>
   ReadGCDA ''adcg foo'' [''oncg foo''] \<in> set (fst (gcovMain example_world example_cmdline)) \<and>
   GCOVFile_new example_world = [] \<and>
   snd (readGCNO example_world ''oncg foo'' (GCOVFile_new example_world)) = [''oncg foo'']"
proof -
  have m1: "ReadGCNO ''oncg bar'' [] \<in> set (fst (gcovMain example_world example_cmdline))"
    by (simp add: example_run)
  have m2: "ReadGCDA ''adcg foo'' [''oncg foo''] \<in>
      set (fst (gcovMain example_world example_cmdline))"
    by (simp add: example_run)
  have "GCOVFile_new example_world = ([] :: string list)"
    using fresh_graph_per_source_file [OF m1] by simp
  moreover have "snd (readGCNO example_world ''oncg foo'' (GCOVFile_new example_world)) =
      [''oncg foo'']"
    by (simp add: example_world_def)
  ultimately show ?thesis
    using m1 m2 by simp
qed

end
